theory Spec2Isabelle
  imports Complex_Main
begin

section \<open>JavaScript values used by the gateway\<close>

text \<open>
  A thrown value is an \<open>Error\<close>-like object with a name and a message.
  \<open>new Error(m)\<close> has the name \<open>Error\<close>; the SDK throws objects of its own
  classes, whose name and message are whatever the collaborator supplies.
  \<open>toString\<close> is \<open>Error.prototype.toString\<close>: the message alone when the name
  is empty, the name alone when the message is empty, otherwise both joined by a
  colon and a space.
\<close>

record js_error =
  err_name :: string
  err_message :: string

definition Error :: "string \<Rightarrow> js_error" where
  "Error m = \<lparr>err_name = ''Error'', err_message = m\<rparr>"

definition toString :: "js_error \<Rightarrow> string" where
  "toString e =
     (if err_name e = [] then err_message e
      else if err_message e = [] then err_name e
      else err_name e @ '': '' @ err_message e)"

text \<open>\<open>String.prototype.includes\<close>: does \<open>t\<close> occur in \<open>s\<close> as a contiguous run.\<close>

fun includes_str :: "string \<Rightarrow> string \<Rightarrow> bool" where
  "includes_str [] t = (t = [])"
| "includes_str (c # cs) t = (take (length t) (c # cs) = t \<or> includes_str cs t)"

section \<open>The completion gateway (services/geminiService.ts)\<close>

record ImageAttachment =
  data :: string
  mimeType :: string

datatype part = TextPart string | ImagePart ImageAttachment

record content =
  role :: string
  parts :: "part list"

text \<open>
  The two entry points take configuration objects that both carry \<open>apiKeys\<close>; the
  chat one adds the system instruction.
\<close>

record key_config =
  apiKeys :: "string list"

record gateway_config = key_config +
  systemInstruction :: string

text \<open>
  What one \<open>generateContent\<close> call carries: the credential the client object
  was built with, the model name, the turns and the system instruction. The safety
  settings are the same four constants on every call and are left out.
\<close>

record gen_request =
  req_apiKey :: string
  req_model :: string
  req_contents :: "content list"
  req_systemInstruction :: string

text \<open>The response object; \<open>resp_text\<close> is its \<open>text\<close> getter, absent or a string.\<close>

record response =
  resp_text :: "string option"

text \<open>
  The completion service is an external collaborator: given its own state and a
  request it either rejects with a thrown value or resolves with a response, and moves
  to a new state. Nothing is assumed about it.
\<close>

type_synonym 'w completion_service = "'w \<Rightarrow> gen_request \<Rightarrow> (js_error + response) \<times> 'w"

text \<open>The state threaded through the gateway: the service, and every request sent so far.\<close>

record 'w io =
  world :: 'w
  sent :: "gen_request list"

definition generateContent ::
  "'w completion_service \<Rightarrow> 'w io \<Rightarrow> gen_request \<Rightarrow> (js_error + response) \<times> 'w io" where
  "generateContent svc s rq =
     (case svc (world s) rq of (r, w') \<Rightarrow> (r, \<lparr>world = w', sent = sent s @ [rq]\<rparr>))"

text \<open>Lines 35-45: the parts of the current turn.\<close>

definition currentParts :: "string \<Rightarrow> ImageAttachment list \<Rightarrow> part list" where
  "currentParts message images =
     (if message \<noteq> [] then [TextPart message] else []) @
     (if length images > 0 then map ImagePart images else [])"

text \<open>Lines 30-33 and 51-70: the request built for one credential.\<close>

definition build_request ::
  "string \<Rightarrow> ImageAttachment list \<Rightarrow> content list \<Rightarrow> gateway_config \<Rightarrow> string \<Rightarrow> gen_request" where
  "build_request message images history cfg apiKey =
     (let formattedContents = map (\<lambda>msg. \<lparr>role = role msg, parts = parts msg\<rparr>) history
      in \<lparr>req_apiKey = apiKey,
          req_model = ''gemini-2.5-flash'',
          req_contents = formattedContents @ [\<lparr>role = ''user'', parts = currentParts message images\<rparr>],
          req_systemInstruction = systemInstruction cfg\<rparr>)"

text \<open>
  Lines 26-76, the body of the \<open>try\<close>: \<open>Inl\<close> is whatever the body throws,
  \<open>Inr\<close> the text it returns. It is entered only with \<open>retryIdx\<close> inside the list.
  Building the client object sends nothing and does not throw for a string credential.
\<close>

definition try_block ::
  "'w completion_service \<Rightarrow> string \<Rightarrow> ImageAttachment list \<Rightarrow> content list \<Rightarrow> gateway_config \<Rightarrow>
   nat \<Rightarrow> 'w io \<Rightarrow> (js_error + string) \<times> 'w io" where
  "try_block svc message images history cfg retryIdx s =
     (let apiKey = apiKeys cfg ! retryIdx in
      if length (currentParts message images) = 0
      then (Inl (Error ''Message cannot be empty''), s)
      else
        (case generateContent svc s (build_request message images history cfg apiKey) of
           (Inl e, s') \<Rightarrow> (Inl e, s')
         | (Inr rsp, s') \<Rightarrow>
             (case resp_text rsp of
                Some t \<Rightarrow> if t \<noteq> [] then (Inr t, s') else (Inl (Error ''Empty response''), s')
              | None \<Rightarrow> (Inl (Error ''Empty response''), s'))))"

text \<open>Line 79: the test of the \<open>catch\<close> clause.\<close>

definition is_quota_error :: "js_error \<Rightarrow> bool" where
  "is_quota_error e = (includes_str (toString e) ''429'' \<or> includes_str (toString e) ''403'')"

function tryGenerate ::
  "'w completion_service \<Rightarrow> string \<Rightarrow> ImageAttachment list \<Rightarrow> content list \<Rightarrow> gateway_config \<Rightarrow>
   nat \<Rightarrow> 'w io \<Rightarrow> (js_error + string) \<times> 'w io" where
  "tryGenerate svc message images history cfg retryIdx s =
     (if retryIdx \<ge> length (apiKeys cfg)
      then (Inl (Error ''All API keys exhausted.''), s)
      else
        (case try_block svc message images history cfg retryIdx s of
           (Inr t, s') \<Rightarrow> (Inr t, s')
         | (Inl e, s') \<Rightarrow>
             if is_quota_error e
             then tryGenerate svc message images history cfg (retryIdx + 1) s'
             else (Inl e, s')))"
  by pat_completeness auto
termination
  by (relation "measure (\<lambda>(svc, message, images, history, cfg, retryIdx, s).
        length (apiKeys cfg) - retryIdx)") auto

declare tryGenerate.simps [simp del]

definition sendMessageToGemini ::
  "'w completion_service \<Rightarrow> string \<Rightarrow> ImageAttachment list \<Rightarrow> content list \<Rightarrow> gateway_config \<Rightarrow>
   'w io \<Rightarrow> (js_error + string) \<times> 'w io" where
  "sendMessageToGemini svc message images history cfg s =
     tryGenerate svc message images history cfg 0 s"

subsection \<open>The service's answers along a run\<close>

text \<open>
  \<open>state_at i\<close> is the state in which the request of credential \<open>i\<close> is sent:
  the service has answered the requests of the credentials before it, in list order.
  \<open>answer_at i\<close> is the service's answer to the request of credential \<open>i\<close> there.
\<close>

definition state_at ::
  "'w completion_service \<Rightarrow> string \<Rightarrow> ImageAttachment list \<Rightarrow> content list \<Rightarrow> gateway_config \<Rightarrow>
   'w io \<Rightarrow> nat \<Rightarrow> 'w io" where
  "state_at svc message images history cfg s i =
     foldl (\<lambda>st k. snd (generateContent svc st (build_request message images history cfg k)))
       s (take i (apiKeys cfg))"

definition answer_at ::
  "'w completion_service \<Rightarrow> string \<Rightarrow> ImageAttachment list \<Rightarrow> content list \<Rightarrow> gateway_config \<Rightarrow>
   'w io \<Rightarrow> nat \<Rightarrow> js_error + response" where
  "answer_at svc message images history cfg s i =
     fst (generateContent svc (state_at svc message images history cfg s i)
            (build_request message images history cfg (apiKeys cfg ! i)))"

definition quota_rejected :: "js_error + response \<Rightarrow> bool" where
  "quota_rejected a = (case a of Inl e \<Rightarrow> is_quota_error e | Inr rsp \<Rightarrow> False)"

subsection \<open>Sample services\<close>

definition flaky_service :: "nat completion_service" where
  "flaky_service w rq =
     (if req_apiKey rq = ''keyA''
      then (Inl \<lparr>err_name = ''ApiError'', err_message = ''got status: 429 Too Many Requests''\<rparr>, Suc w)
      else (Inr \<lparr>resp_text = Some ''hi''\<rparr>, Suc w))"

definition demo_config :: gateway_config where
  "demo_config = \<lparr>apiKeys = [''keyA'', ''keyB''], systemInstruction = ''be terse''\<rparr>"

definition idle :: "nat io" where
  "idle = \<lparr>world = 0, sent = []\<rparr>"

definition busy_service :: "nat completion_service" where
  "busy_service w rq =
     (Inl \<lparr>err_name = ''ApiError'', err_message = ''got status: 429 Too Many Requests''\<rparr>, Suc w)"

definition silent_service :: "nat completion_service" where
  "silent_service w rq =
     (if req_apiKey rq = ''keyA''
      then (Inl \<lparr>err_name = ''ApiError'', err_message = ''403 PERMISSION_DENIED''\<rparr>, Suc w)
      else if req_apiKey rq = ''keyB''
      then (Inr \<lparr>resp_text = None\<rparr>, Suc w)
      else (Inr \<lparr>resp_text = Some ''late''\<rparr>, Suc w))"

definition three_keys :: gateway_config where
  "three_keys = \<lparr>apiKeys = [''keyA'', ''keyB'', ''keyC''], systemInstruction = ''be terse''\<rparr>"

section \<open>The long-running video variant (services/geminiService.ts)\<close>

text \<open>
  The job handle. \<open>op_videoUri\<close> stands for the optional chain
  \<open>operation.response?.generatedVideos?.[0]?.video?.uri\<close>: absent when any link of the
  chain is.
\<close>

record operation =
  op_done :: bool
  op_videoUri :: "string option"

text \<open>
  The video service is an external collaborator with two entry points, both made through
  a client object built with a credential: starting a job, and refreshing a job handle.
\<close>

record 'v video_sdk =
  generateVideos :: "'v \<Rightarrow> string \<Rightarrow> string \<Rightarrow> (js_error + operation) \<times> 'v"
  getVideosOperation :: "'v \<Rightarrow> string \<Rightarrow> operation \<Rightarrow> (js_error + operation) \<times> 'v"

text \<open>The state threaded through: the service, and the credential of every job started.\<close>

record 'v vio =
  vworld :: 'v
  jobs :: "string list"

definition start_job ::
  "'v video_sdk \<Rightarrow> string \<Rightarrow> string \<Rightarrow> 'v vio \<Rightarrow> (js_error + operation) \<times> 'v vio" where
  "start_job sdk apiKey prompt s =
     (case generateVideos sdk (vworld s) apiKey prompt of
        (r, w') \<Rightarrow> (r, \<lparr>vworld = w', jobs = jobs s @ [apiKey]\<rparr>))"

definition refresh_job ::
  "'v video_sdk \<Rightarrow> string \<Rightarrow> operation \<Rightarrow> 'v vio \<Rightarrow> (js_error + operation) \<times> 'v vio" where
  "refresh_job sdk apiKey operation s =
     (case getVideosOperation sdk (vworld s) apiKey operation of
        (r, w') \<Rightarrow> (r, s\<lparr>vworld := w'\<rparr>))"

text \<open>
  Lines 113-116, the polling loop. It has no bound: when the service never reports the job
  done the loop does not return, which is the value \<open>None\<close>. The five-second pause
  between two polls is not modelled.
\<close>

partial_function (option) poll ::
  "'v video_sdk \<Rightarrow> string \<Rightarrow> operation \<Rightarrow> 'v vio \<Rightarrow> ((js_error + operation) \<times> 'v vio) option" where
  "poll sdk apiKey operation s =
     (if \<not> op_done operation
      then (case refresh_job sdk apiKey operation s of
              (Inl e, s') \<Rightarrow> Some (Inl e, s')
            | (Inr operation', s') \<Rightarrow> poll sdk apiKey operation' s')
      else Some (Inr operation, s))"

text \<open>Lines 102-116: start the job and poll until it is done.\<close>

definition run_job ::
  "'v video_sdk \<Rightarrow> string \<Rightarrow> string \<Rightarrow> 'v vio \<Rightarrow> ((js_error + operation) \<times> 'v vio) option" where
  "run_job sdk apiKey prompt s =
     (case start_job sdk apiKey prompt s of
        (Inl e, s') \<Rightarrow> Some (Inl e, s')
      | (Inr operation, s') \<Rightarrow> poll sdk apiKey operation s')"

text \<open>Lines 98-121, the body of the \<open>try\<close>.\<close>

definition try_video ::
  "'v video_sdk \<Rightarrow> string \<Rightarrow> 'a key_config_scheme \<Rightarrow> nat \<Rightarrow> 'v vio \<Rightarrow>
   ((js_error + string) \<times> 'v vio) option" where
  "try_video sdk prompt cfg retryIdx s =
     (let apiKey = apiKeys cfg ! retryIdx in
      case run_job sdk apiKey prompt s of
        None \<Rightarrow> None
      | Some (Inl e, s') \<Rightarrow> Some (Inl e, s')
      | Some (Inr operation, s') \<Rightarrow>
          (case op_videoUri operation of
             None \<Rightarrow> Some (Inl (Error ''Failed to generate video URI''), s')
           | Some videoUri \<Rightarrow>
               if videoUri = [] then Some (Inl (Error ''Failed to generate video URI''), s')
               else Some (Inr (videoUri @ ''&key='' @ apiKey), s')))"

function tryGenerateVideo ::
  "'v video_sdk \<Rightarrow> string \<Rightarrow> 'a key_config_scheme \<Rightarrow> nat \<Rightarrow> 'v vio \<Rightarrow>
   ((js_error + string) \<times> 'v vio) option" where
  "tryGenerateVideo sdk prompt cfg retryIdx s =
     (if retryIdx \<ge> length (apiKeys cfg)
      then Some (Inl (Error ''All API keys exhausted.''), s)
      else
        (case try_video sdk prompt cfg retryIdx s of
           None \<Rightarrow> None
         | Some (Inr r, s') \<Rightarrow> Some (Inr r, s')
         | Some (Inl e, s') \<Rightarrow>
             if is_quota_error e
             then tryGenerateVideo sdk prompt cfg (retryIdx + 1) s'
             else Some (Inl e, s')))"
  by pat_completeness auto
termination
  by (relation "measure (\<lambda>(sdk, prompt, cfg, retryIdx, s). length (apiKeys cfg) - retryIdx)") auto

declare tryGenerateVideo.simps [simp del]

definition generateVeoVideo ::
  "'v video_sdk \<Rightarrow> string \<Rightarrow> 'a key_config_scheme \<Rightarrow> 'v vio \<Rightarrow>
   ((js_error + string) \<times> 'v vio) option" where
  "generateVeoVideo sdk prompt cfg s = tryGenerateVideo sdk prompt cfg 0 s"

text \<open>
  A sample video service: the first credential is over quota; a job started with any
  other credential is done after two refreshes and then carries a locator.
\<close>

definition sample_video_sdk :: "nat video_sdk" where
  "sample_video_sdk =
     \<lparr>generateVideos = (\<lambda>w apiKey prompt.
        if apiKey = ''keyA''
        then (Inl \<lparr>err_name = ''ApiError'', err_message = ''429 RESOURCE_EXHAUSTED''\<rparr>, w)
        else (Inr \<lparr>op_done = False, op_videoUri = None\<rparr>, 0)),
      getVideosOperation = (\<lambda>w apiKey operation.
        if w < 1 then (Inr \<lparr>op_done = False, op_videoUri = None\<rparr>, Suc w)
        else (Inr \<lparr>op_done = True, op_videoUri = Some ''https://example.test/v?id=7''\<rparr>, Suc w))\<rparr>"

section \<open>Users and configuration (contexts/ConfigContext.tsx, components/ChatInterface.tsx)\<close>

text \<open>
  Modelled from the spec: the module that declares \<open>User\<close>, \<open>AppConfig\<close> and
  \<open>DatabaseSchema\<close> is not among the sources. The records below have the fields the
  spec's data model lists and the code reads and writes.

  The per-user override: every field may be absent.
\<close>

record user_config =
  uc_aiName :: "string option"
  uc_aiPersona :: "string option"
  uc_devName :: "string option"
  uc_apiKeys :: "string list option"

text \<open>
  A row of the remote \<open>users\<close> table. \<open>created_at\<close> is kept as the number
  \<open>new Date(user.created_at).getTime()\<close> yields: milliseconds since the epoch, or
  \<open>None\<close> for the not-a-number of a text that is no date.
\<close>

record user_row =
  row_id :: string
  row_username :: string
  access_key :: string
  row_role :: string
  created_at :: "int option"
  row_profile :: string
  row_config :: "user_config option"

record user =
  user_id :: string
  username :: string
  accessKey :: string
  user_role :: string
  createdAt :: "int option"
  profile :: string
  config :: "user_config option"

text \<open>The object literal \<open>mapped\<close> built in all three session operations.\<close>

definition mapped :: "user_row \<Rightarrow> user" where
  "mapped u =
     \<lparr>user_id = row_id u, username = row_username u, accessKey = access_key u,
      user_role = row_role u, createdAt = created_at u, profile = row_profile u,
      config = row_config u\<rparr>"

record LoginResult =
  success :: bool
  login_message :: "string option"

text \<open>The client: the React state \<open>currentUser\<close> and the browser's local storage.\<close>

record client =
  currentUser :: "user option"
  localStorage :: "string \<rightharpoonup> string"

definition session_slot :: string where
  "session_slot = ''central_gpt_active_session''"

text \<open>
  The remote store is an external collaborator. A query
  \<open>from('users').select('*').eq(...).single()\<close> resolves with \<open>data\<close> set to the one
  row that passes the filters, and to \<open>null\<close> when no row or more than one row does.
\<close>

definition single :: "'a list \<Rightarrow> 'a option" where
  "single rows = (case rows of [r] \<Rightarrow> Some r | _ \<Rightarrow> None)"

text \<open>
  \<open>diffHours\<close> is \<open>(now.getTime() - created.getTime()) / (1000 * 60 * 60)\<close>, with
  \<open>None\<close> for not-a-number. The quotient is taken exactly. The source computes it in
  double precision, which decides \<open>diffHours >= 200000\<close> the same way: the times are
  whole milliseconds, \<open>200000\<close> and \<open>200000 * 3600000\<close> are doubles, and the nearest
  quotient below the bound, at one millisecond less, is further from \<open>200000\<close> than the
  spacing of doubles there. A comparison with not-a-number is false.
\<close>

definition diffHours :: "int \<Rightarrow> int option \<Rightarrow> real option" where
  "diffHours now created =
     (case created of None \<Rightarrow> None
      | Some c \<Rightarrow> Some (real_of_int (now - c) / (1000 * 60 * 60)))"

definition num_ge :: "real option \<Rightarrow> real \<Rightarrow> bool" where
  "num_ge x y = (case x of None \<Rightarrow> False | Some v \<Rightarrow> v \<ge> y)"

text \<open>\<open>loginClient\<close>; \<open>now\<close> is the clock read after the lookup has resolved.\<close>

definition loginClient :: "user_row list \<Rightarrow> int \<Rightarrow> string \<Rightarrow> client \<Rightarrow> LoginResult \<times> client" where
  "loginClient users now key s =
     (case single (filter (\<lambda>u. access_key u = key \<and> row_role u = ''user'') users) of
        None \<Rightarrow> (\<lparr>success = False, login_message = Some ''Invalid Access Key.''\<rparr>, s)
      | Some u \<Rightarrow>
          if num_ge (diffHours now (created_at u)) 200000
          then (\<lparr>success = False, login_message = Some ''Access Key expired (200.000 hours).''\<rparr>, s)
          else (\<lparr>success = True, login_message = None\<rparr>,
                s\<lparr>currentUser := Some (mapped u),
                  localStorage := (localStorage s)(session_slot \<mapsto> key)\<rparr>))"

text \<open>\<open>loginAdmin\<close> does not read the clock.\<close>

definition loginAdmin :: "user_row list \<Rightarrow> string \<Rightarrow> string \<Rightarrow> client \<Rightarrow> LoginResult \<times> client" where
  "loginAdmin users uname key s =
     (case single (filter (\<lambda>u. row_username u = uname \<and> access_key u = key \<and> row_role u = ''admin'')
                     users) of
        None \<Rightarrow> (\<lparr>success = False, login_message = Some ''Invalid Admin Credentials.''\<rparr>, s)
      | Some u \<Rightarrow>
          (\<lparr>success = True, login_message = None\<rparr>,
           s\<lparr>currentUser := Some (mapped u),
             localStorage := (localStorage s)(session_slot \<mapsto> key)\<rparr>))"

text \<open>
  \<open>restoreSession\<close>. \<open>!savedSessionKey\<close> holds for an absent item and for the empty
  string. Every path of the source returns normally, so the result is the client alone.
\<close>

definition restoreSession :: "user_row list \<Rightarrow> int \<Rightarrow> client \<Rightarrow> client" where
  "restoreSession users now s =
     (case localStorage s session_slot of
        None \<Rightarrow> s
      | Some savedSessionKey \<Rightarrow>
          if savedSessionKey = [] then s
          else
            (case single (filter (\<lambda>u. access_key u = savedSessionKey) users) of
               None \<Rightarrow> s\<lparr>localStorage := (localStorage s)(session_slot := None)\<rparr>
             | Some u \<Rightarrow>
                 if num_ge (diffHours now (created_at u)) 200000 \<and> row_role u \<noteq> ''admin''
                 then s\<lparr>localStorage := (localStorage s)(session_slot := None)\<rparr>
                 else s\<lparr>currentUser := Some (mapped u)\<rparr>))"

subsection \<open>Writing the global configuration\<close>

text \<open>\<open>Partial<AppConfig>\<close>: every field may be absent.\<close>

record partial_app_config =
  p_aiName :: "string option"
  p_aiPersona :: "string option"
  p_devName :: "string option"
  p_apiKeys :: "string list option"
  p_avatarUrl :: "string option"

text \<open>A column value, and an object or a table row as a map from column names.\<close>

datatype json = JString string | JStrings "string list" | JNumber int

type_synonym json_object = "string \<rightharpoonup> json"

text \<open>
  Lines 198-202: the object \<open>dbUpdate\<close>. A string field is written when it is present
  and not empty, the credential list whenever it is present (an array is truthy).
\<close>

definition set_if_truthy :: "string \<Rightarrow> string option \<Rightarrow> json_object \<Rightarrow> json_object" where
  "set_if_truthy column v obj =
     (case v of None \<Rightarrow> obj
      | Some x \<Rightarrow> if x \<noteq> [] then obj(column \<mapsto> JString x) else obj)"

definition dbUpdate :: "partial_app_config \<Rightarrow> json_object" where
  "dbUpdate newConfig =
     (let d0 = Map.empty;
          d1 = set_if_truthy ''ai_name'' (p_aiName newConfig) d0;
          d2 = set_if_truthy ''dev_name'' (p_devName newConfig) d1;
          d3 = set_if_truthy ''avatar_url'' (p_avatarUrl newConfig) d2
      in case p_apiKeys newConfig of None \<Rightarrow> d3
         | Some ks \<Rightarrow> d3(''api_keys'' \<mapsto> JStrings ks))"

text \<open>
  The store's \<open>update(patch).eq(column, v)\<close>: in every row whose column has the value,
  the columns named by the patch are overwritten and the others kept.
\<close>

definition update_eq :: "json_object list \<Rightarrow> json_object \<Rightarrow> string \<Rightarrow> json \<Rightarrow> json_object list" where
  "update_eq table patch column v =
     map (\<lambda>row. if row column = Some v then row ++ patch else row) table"

definition updateGlobalConfig :: "json_object list \<Rightarrow> partial_app_config \<Rightarrow> json_object list" where
  "updateGlobalConfig app_config newConfig =
     update_eq app_config (dbUpdate newConfig) ''id'' (JNumber 1)"

subsection \<open>The configuration used for a request\<close>

record effective_config = key_config +
  aiName :: string
  aiPersona :: string
  devName :: string

record app_config = effective_config +
  avatarUrl :: string

text \<open>\<open>a || b\<close> for an optional string \<open>a\<close>: \<open>a\<close> when it is present and not empty.\<close>

definition or_else :: "string option \<Rightarrow> string \<Rightarrow> string" where
  "or_else a b = (case a of None \<Rightarrow> b | Some v \<Rightarrow> if v \<noteq> [] then v else b)"

text \<open>Lines 145-153 of the chat component.\<close>

definition effectiveConfig :: "app_config option \<Rightarrow> user option \<Rightarrow> effective_config" where
  "effectiveConfig dbGlobalConfig cur =
     (let globalConfig =
            (case dbGlobalConfig of
               Some g \<Rightarrow> g
             | None \<Rightarrow> \<lparr>apiKeys = [], aiName = ''System'', aiPersona = '''', devName = ''Admin'',
                        avatarUrl = ''''\<rparr>);
          userConfig =
            (case cur of
               None \<Rightarrow> \<lparr>uc_aiName = None, uc_aiPersona = None, uc_devName = None, uc_apiKeys = None\<rparr>
             | Some u \<Rightarrow>
                 (case config u of
                    None \<Rightarrow> \<lparr>uc_aiName = None, uc_aiPersona = None, uc_devName = None,
                              uc_apiKeys = None\<rparr>
                  | Some c \<Rightarrow> c))
      in \<lparr>apiKeys =
            (case uc_apiKeys userConfig of
               None \<Rightarrow> apiKeys globalConfig
             | Some ks \<Rightarrow> if length ks > 0 then ks else apiKeys globalConfig),
          aiName = or_else (uc_aiName userConfig) (aiName globalConfig),
          aiPersona = or_else (uc_aiPersona userConfig) (aiPersona globalConfig),
          devName = or_else (uc_devName userConfig) (devName globalConfig)\<rparr>)"

subsection \<open>Sample users, clients and configurations\<close>

definition alice :: user_row where
  "alice = \<lparr>row_id = ''u1'', row_username = ''alice'', access_key = ''VALID-KEY-123'',
            row_role = ''user'', created_at = Some 0, row_profile = '''', row_config = None\<rparr>"

definition root_admin :: user_row where
  "root_admin = \<lparr>row_id = ''u0'', row_username = ''root'', access_key = ''ROOT-KEY'',
            row_role = ''admin'', created_at = Some 0, row_profile = '''', row_config = None\<rparr>"

definition fresh_client :: client where
  "fresh_client = \<lparr>currentUser = None, localStorage = Map.empty\<rparr>"

definition returning_client :: "string \<Rightarrow> client" where
  "returning_client k = \<lparr>currentUser = None, localStorage = [''central_gpt_active_session'' \<mapsto> k]\<rparr>"

definition sample_global :: app_config where
  "sample_global = \<lparr>apiKeys = [''gk1'', ''gk2''], aiName = ''CentralGPT'', aiPersona = ''You are {{AI_NAME}}.'',
                     devName = ''XdpzQ'', avatarUrl = ''''\<rparr>"

definition blank_override :: user_config where
  "blank_override = \<lparr>uc_aiName = Some '''', uc_aiPersona = None, uc_devName = None, uc_apiKeys = None\<rparr>"

definition full_override :: user_config where
  "full_override = \<lparr>uc_aiName = Some ''Nova'', uc_aiPersona = Some ''Be brief.'', uc_devName = Some ''Kim'',
                     uc_apiKeys = Some [''uk1'']\<rparr>"

definition user_with :: "user_config \<Rightarrow> user" where
  "user_with c = (mapped alice)\<lparr>config := Some c\<rparr>"

definition sample_table :: "json_object list" where
  "sample_table = [[''id'' \<mapsto> JNumber 1, ''ai_name'' \<mapsto> JString ''CentralGPT'',
                    ''ai_persona'' \<mapsto> JString ''You are {{AI_NAME}}.'']]"

definition persona_patch :: partial_app_config where
  "persona_patch = \<lparr>p_aiName = Some ''Nova'', p_aiPersona = Some ''Be rude.'', p_devName = None,
                     p_apiKeys = None, p_avatarUrl = None\<rparr>"

section \<open>Properties of the completion gateway\<close>

lemma state_at_0: "state_at svc message images history cfg s 0 = s"
  by (simp add: state_at_def)

lemma state_at_Suc:
  "i < length (apiKeys cfg) \<Longrightarrow>
   state_at svc message images history cfg s (Suc i) =
   snd (generateContent svc (state_at svc message images history cfg s i)
          (build_request message images history cfg (apiKeys cfg ! i)))"
  by (simp add: state_at_def take_Suc_conv_app_nth)

lemma sent_generateContent: "sent (snd (generateContent svc st rq)) = sent st @ [rq]"
  by (simp add: generateContent_def split: prod.splits)

lemma sent_state_at:
  "i \<le> length (apiKeys cfg) \<Longrightarrow>
   sent (state_at svc message images history cfg s i) =
   sent s @ map (build_request message images history cfg) (take i (apiKeys cfg))"
proof (induction i)
  case 0
  then show ?case by (simp add: state_at_0)
next
  case (Suc i)
  then show ?case
    by (simp add: state_at_Suc sent_generateContent take_Suc_conv_app_nth)
qed

lemma try_block_rejected:
  assumes "currentParts message images \<noteq> []" and "i < length (apiKeys cfg)"
    and "answer_at svc message images history cfg s i = Inl e"
  shows "try_block svc message images history cfg i (state_at svc message images history cfg s i) =
         (Inl e, state_at svc message images history cfg s (Suc i))"
proof -
  obtain s' where "generateContent svc (state_at svc message images history cfg s i)
      (build_request message images history cfg (apiKeys cfg ! i)) = (Inl e, s')"
    using assms(3) unfolding answer_at_def by (metis fst_conv surj_pair)
  with assms(1,2) show ?thesis
    by (simp add: try_block_def state_at_Suc)
qed

lemma try_block_resolved:
  assumes "currentParts message images \<noteq> []" and "i < length (apiKeys cfg)"
    and "answer_at svc message images history cfg s i = Inr rsp"
  shows "try_block svc message images history cfg i (state_at svc message images history cfg s i) =
         ((case resp_text rsp of
             Some t \<Rightarrow> if t \<noteq> [] then Inr t else Inl (Error ''Empty response'')
           | None \<Rightarrow> Inl (Error ''Empty response'')),
          state_at svc message images history cfg s (Suc i))"
proof -
  obtain s' where "generateContent svc (state_at svc message images history cfg s i)
      (build_request message images history cfg (apiKeys cfg ! i)) = (Inr rsp, s')"
    using assms(3) unfolding answer_at_def by (metis fst_conv surj_pair)
  with assms(1,2) show ?thesis
    by (simp add: try_block_def state_at_Suc split: option.splits)
qed

lemma tryGenerate_step:
  assumes "currentParts message images \<noteq> []" and "i < length (apiKeys cfg)"
    and "quota_rejected (answer_at svc message images history cfg s i)"
  shows "tryGenerate svc message images history cfg i (state_at svc message images history cfg s i) =
         tryGenerate svc message images history cfg (Suc i) (state_at svc message images history cfg s (Suc i))"
proof -
  from assms(3) obtain e where e: "answer_at svc message images history cfg s i = Inl e" "is_quota_error e"
    by (auto simp: quota_rejected_def split: sum.splits)
  show ?thesis
    using assms(2) e(2)
    by (subst tryGenerate.simps) (simp add: try_block_rejected[OF assms(1,2) e(1)])
qed

lemma tryGenerate_skip:
  assumes "currentParts message images \<noteq> []" and "n \<le> length (apiKeys cfg)"
    and "\<forall>j<n. quota_rejected (answer_at svc message images history cfg s j)"
  shows "i \<le> n \<Longrightarrow>
         tryGenerate svc message images history cfg (n - i) (state_at svc message images history cfg s (n - i)) =
         tryGenerate svc message images history cfg n (state_at svc message images history cfg s n)"
proof (induction i)
  case 0
  then show ?case by simp
next
  case (Suc i)
  then have lt: "n - Suc i < n" and le: "i \<le> n" and suc: "Suc (n - Suc i) = n - i" by arith+
  from lt assms(2) have "n - Suc i < length (apiKeys cfg)" by simp
  from tryGenerate_step[OF assms(1) this] assms(3) lt
  have "tryGenerate svc message images history cfg (n - Suc i) (state_at svc message images history cfg s (n - Suc i)) =
        tryGenerate svc message images history cfg (Suc (n - Suc i)) (state_at svc message images history cfg s (Suc (n - Suc i)))"
    by blast
  with Suc.IH[OF le] suc show ?case by simp
qed

lemma not_quota_Empty_response: "\<not> is_quota_error (Error ''Empty response'')"
  by (simp add: is_quota_error_def toString_def Error_def)

lemma not_quota_Message_empty: "\<not> is_quota_error (Error ''Message cannot be empty'')"
  by (simp add: is_quota_error_def toString_def Error_def)

lemma tryGenerate_resolved:
  assumes "currentParts message images \<noteq> []" and "i < length (apiKeys cfg)"
    and "answer_at svc message images history cfg s i = Inr rsp"
    and "resp_text rsp = Some t" and "t \<noteq> []"
  shows "tryGenerate svc message images history cfg i (state_at svc message images history cfg s i) =
         (Inr t, state_at svc message images history cfg s (Suc i))"
  using assms(2,4,5)
  by (subst tryGenerate.simps) (simp add: try_block_resolved[OF assms(1,2,3)])

lemma tryGenerate_empty:
  assumes "currentParts message images \<noteq> []" and "i < length (apiKeys cfg)"
    and "answer_at svc message images history cfg s i = Inr rsp"
    and "resp_text rsp = None \<or> resp_text rsp = Some []"
  shows "tryGenerate svc message images history cfg i (state_at svc message images history cfg s i) =
         (Inl (Error ''Empty response''), state_at svc message images history cfg s (Suc i))"
  using assms(2,4)
  by (subst tryGenerate.simps)
     (auto simp add: try_block_resolved[OF assms(1,2,3)] not_quota_Empty_response)

lemma sendMessageToGemini_skip:
  assumes "currentParts message images \<noteq> []" and "n \<le> length (apiKeys cfg)"
    and "\<forall>j<n. quota_rejected (answer_at svc message images history cfg s j)"
  shows "sendMessageToGemini svc message images history cfg s =
         tryGenerate svc message images history cfg n (state_at svc message images history cfg s n)"
  using tryGenerate_skip[OF assms, of n] by (simp add: sendMessageToGemini_def state_at_0)

text \<open>
  Claim C1. Take a credential list of length \<open>N \<ge> 1\<close> and a request that has a text or
  an attachment (no attempt is made otherwise). If the service rejects the requests of the
  first \<open>N - 1\<close> credentials with a value whose string form contains \<open>429\<close> or
  \<open>403\<close>, and resolves the request of the \<open>N\<close>th credential with a non-empty text,
  then \<open>sendMessageToGemini\<close> returns that text, and the requests it sent are exactly
  one per credential, in list order.
\<close>

theorem failover_returns_nth:
  assumes "apiKeys cfg \<noteq> []"
    and "currentParts message images \<noteq> []"
    and "\<forall>i < length (apiKeys cfg) - 1. quota_rejected (answer_at svc message images history cfg s i)"
    and "answer_at svc message images history cfg s (length (apiKeys cfg) - 1) = Inr rsp"
    and "resp_text rsp = Some t" and "t \<noteq> []"
  shows "sendMessageToGemini svc message images history cfg s =
           (Inr t, state_at svc message images history cfg s (length (apiKeys cfg))) \<and>
         sent (state_at svc message images history cfg s (length (apiKeys cfg))) =
           sent s @ map (build_request message images history cfg) (apiKeys cfg)"
proof -
  define n where "n = length (apiKeys cfg) - 1"
  from assms(1) have n: "n < length (apiKeys cfg)" and sn: "Suc n = length (apiKeys cfg)"
    unfolding n_def by (cases "apiKeys cfg"; simp)+
  have a3: "\<forall>j<n. quota_rejected (answer_at svc message images history cfg s j)"
    using assms(3) by (simp only: n_def)
  have a4: "answer_at svc message images history cfg s n = Inr rsp"
    using assms(4) by (simp only: n_def)
  from n have "n \<le> length (apiKeys cfg)" by simp
  from sendMessageToGemini_skip[OF assms(2) this a3]
  have "sendMessageToGemini svc message images history cfg s =
        tryGenerate svc message images history cfg n (state_at svc message images history cfg s n)" .
  also have "\<dots> = (Inr t, state_at svc message images history cfg s (Suc n))"
    by (rule tryGenerate_resolved[OF assms(2) n a4 assms(5,6)])
  finally have "sendMessageToGemini svc message images history cfg s =
      (Inr t, state_at svc message images history cfg s (length (apiKeys cfg)))"
    by (simp add: sn)
  moreover have "sent (state_at svc message images history cfg s (length (apiKeys cfg))) =
           sent s @ map (build_request message images history cfg) (apiKeys cfg)"
    by (simp add: sent_state_at)
  ultimately show ?thesis by simp
qed

theorem failover_returns_nth_witness:
  "fst (sendMessageToGemini flaky_service ''hello'' [] [] demo_config idle) = Inr ''hi'' \<and>
   map req_apiKey (sent (snd (sendMessageToGemini flaky_service ''hello'' [] [] demo_config idle))) =
     [''keyA'', ''keyB'']"
proof -
  have a: "apiKeys demo_config \<noteq> []" by (simp add: demo_config_def)
  have b: "currentParts ''hello'' [] \<noteq> []" by (simp add: currentParts_def)
  have c: "\<forall>i < length (apiKeys demo_config) - 1.
             quota_rejected (answer_at flaky_service ''hello'' [] [] demo_config idle i)"
    by (simp add: quota_rejected_def answer_at_def state_at_def demo_config_def idle_def
          generateContent_def flaky_service_def build_request_def is_quota_error_def toString_def)
  have d: "answer_at flaky_service ''hello'' [] [] demo_config idle (length (apiKeys demo_config) - 1) =
             Inr \<lparr>resp_text = Some ''hi''\<rparr>"
    by (simp add: answer_at_def state_at_def demo_config_def idle_def
          generateContent_def flaky_service_def build_request_def)
  from failover_returns_nth[OF a b c d, of "''hi''"]
  show ?thesis by (simp add: demo_config_def build_request_def idle_def)
qed


lemma try_block_Inr_nonempty:
  "try_block svc message images history cfg i s = (Inr t, s') \<Longrightarrow> t \<noteq> []"
  by (auto simp: try_block_def Let_def split: if_splits prod.splits sum.splits option.splits)

lemma tryGenerate_never_empty_text:
  "fst (tryGenerate svc message images history cfg i s) \<noteq> Inr []"
proof (induction svc message images history cfg i s rule: tryGenerate.induct)
  case (1 svc message images history cfg retryIdx s)
  show ?case
  proof (cases "retryIdx \<ge> length (apiKeys cfg)")
    case True
    then show ?thesis by (subst tryGenerate.simps) simp
  next
    case False
    obtain r s' where tb: "try_block svc message images history cfg retryIdx s = (r, s')"
      by (cases "try_block svc message images history cfg retryIdx s")
    show ?thesis
    proof (cases r)
      case (Inl e)
      with False tb "1.IH" show ?thesis
        by (subst tryGenerate.simps) auto
    next
      case (Inr t)
      with tb have "t \<noteq> []" using try_block_Inr_nonempty by blast
      with False tb Inr show ?thesis
        by (subst tryGenerate.simps) simp
    qed
  qed
qed

lemma tryGenerate_past_end:
  "tryGenerate svc message images history cfg (length (apiKeys cfg)) s =
     (Inl (Error ''All API keys exhausted.''), s)"
  by (subst tryGenerate.simps) simp

text \<open>
  Claim C2. With an empty credential list \<open>sendMessageToGemini\<close> fails with the error
  \<open>All API keys exhausted.\<close> and leaves the state as it was, so no request is sent.
  More generally, when every credential of the list is rejected with a quota or
  authorization failure, the result is that same error after one request per credential.
  The result is never a successful empty text, and the error differs from the two other
  errors the gateway raises itself.
\<close>

theorem exhausted_is_distinct_failure:
  "(apiKeys cfg = [] \<longrightarrow>
      sendMessageToGemini svc message images history cfg s =
        (Inl (Error ''All API keys exhausted.''), s)) \<and>
   (currentParts message images \<noteq> [] \<and>
    (\<forall>i < length (apiKeys cfg). quota_rejected (answer_at svc message images history cfg s i)) \<longrightarrow>
      sendMessageToGemini svc message images history cfg s =
        (Inl (Error ''All API keys exhausted.''),
         state_at svc message images history cfg s (length (apiKeys cfg)))) \<and>
   fst (sendMessageToGemini svc message images history cfg s) \<noteq> Inr [] \<and>
   Error ''All API keys exhausted.'' \<noteq> Error ''Empty response'' \<and>
   Error ''All API keys exhausted.'' \<noteq> Error ''Message cannot be empty''"
proof (intro conjI impI)
  assume "apiKeys cfg = []"
  then show "sendMessageToGemini svc message images history cfg s =
        (Inl (Error ''All API keys exhausted.''), s)"
    unfolding sendMessageToGemini_def by (subst tryGenerate.simps) simp
next
  assume h: "currentParts message images \<noteq> [] \<and>
    (\<forall>i < length (apiKeys cfg). quota_rejected (answer_at svc message images history cfg s i))"
  then have "sendMessageToGemini svc message images history cfg s =
      tryGenerate svc message images history cfg (length (apiKeys cfg))
        (state_at svc message images history cfg s (length (apiKeys cfg)))"
    using sendMessageToGemini_skip[of message images "length (apiKeys cfg)" cfg svc history s]
    by simp
  then show "sendMessageToGemini svc message images history cfg s =
        (Inl (Error ''All API keys exhausted.''),
         state_at svc message images history cfg s (length (apiKeys cfg)))"
    by (simp add: tryGenerate_past_end)
next
  show "fst (sendMessageToGemini svc message images history cfg s) \<noteq> Inr []"
    unfolding sendMessageToGemini_def by (rule tryGenerate_never_empty_text)
next
  show "Error ''All API keys exhausted.'' \<noteq> Error ''Empty response''"
    by (simp add: Error_def)
next
  show "Error ''All API keys exhausted.'' \<noteq> Error ''Message cannot be empty''"
    by (simp add: Error_def)
qed

theorem exhausted_is_distinct_failure_witness:
  "sendMessageToGemini busy_service ''hello'' [] []
      \<lparr>apiKeys = [], systemInstruction = ''be terse''\<rparr> idle =
     (Inl (Error ''All API keys exhausted.''), idle) \<and>
   fst (sendMessageToGemini busy_service ''hello'' [] [] demo_config idle) =
     Inl (Error ''All API keys exhausted.'') \<and>
   map req_apiKey (sent (snd (sendMessageToGemini busy_service ''hello'' [] [] demo_config idle))) =
     [''keyA'', ''keyB'']"
proof -
  have a: "apiKeys \<lparr>apiKeys = [], systemInstruction = ''be terse''\<rparr> = []" by simp
  have b: "currentParts ''hello'' [] \<noteq> []" by (simp add: currentParts_def)
  have c: "\<forall>i < length (apiKeys demo_config).
             quota_rejected (answer_at busy_service ''hello'' [] [] demo_config idle i)"
    by (simp add: quota_rejected_def answer_at_def generateContent_def busy_service_def
          is_quota_error_def toString_def split: prod.splits)
  from exhausted_is_distinct_failure[of "\<lparr>apiKeys = [], systemInstruction = ''be terse''\<rparr>"
      busy_service "''hello''" "[]" "[]" idle] a
  have 1: "sendMessageToGemini busy_service ''hello'' [] []
      \<lparr>apiKeys = [], systemInstruction = ''be terse''\<rparr> idle =
     (Inl (Error ''All API keys exhausted.''), idle)" by blast
  from exhausted_is_distinct_failure[of demo_config busy_service "''hello''" "[]" "[]" idle] b c
  have 2: "sendMessageToGemini busy_service ''hello'' [] [] demo_config idle =
        (Inl (Error ''All API keys exhausted.''),
         state_at busy_service ''hello'' [] [] demo_config idle (length (apiKeys demo_config)))"
    by blast
  have 3: "map req_apiKey (sent (state_at busy_service ''hello'' [] [] demo_config idle
             (length (apiKeys demo_config)))) = [''keyA'', ''keyB'']"
    by (simp add: sent_state_at idle_def demo_config_def build_request_def)
  from 1 2 3 show ?thesis by simp
qed

text \<open>
  Claim C3. At any position \<open>i\<close> of the credential list: if the credentials before
  \<open>i\<close> were rejected with a quota or authorization failure and the service resolves
  the request of credential \<open>i\<close> with an absent or empty text, then
  \<open>sendMessageToGemini\<close> fails with \<open>Empty response\<close>, and the requests sent are
  those of the first \<open>i + 1\<close> credentials only: no later credential is tried.
\<close>

theorem empty_response_not_retried:
  assumes "currentParts message images \<noteq> []" and "i < length (apiKeys cfg)"
    and "\<forall>j<i. quota_rejected (answer_at svc message images history cfg s j)"
    and "answer_at svc message images history cfg s i = Inr rsp"
    and "resp_text rsp = None \<or> resp_text rsp = Some []"
  shows "sendMessageToGemini svc message images history cfg s =
           (Inl (Error ''Empty response''), state_at svc message images history cfg s (Suc i)) \<and>
         sent (state_at svc message images history cfg s (Suc i)) =
           sent s @ map (build_request message images history cfg) (take (Suc i) (apiKeys cfg))"
proof -
  from assms(2) have le: "i \<le> length (apiKeys cfg)" and sle: "Suc i \<le> length (apiKeys cfg)"
    by simp_all
  have "sendMessageToGemini svc message images history cfg s =
        tryGenerate svc message images history cfg i (state_at svc message images history cfg s i)"
    by (rule sendMessageToGemini_skip[OF assms(1) le assms(3)])
  also have "\<dots> = (Inl (Error ''Empty response''), state_at svc message images history cfg s (Suc i))"
    by (rule tryGenerate_empty[OF assms(1,2,4,5)])
  finally show ?thesis
    using sent_state_at[OF sle] by simp
qed

theorem empty_response_not_retried_witness:
  "fst (sendMessageToGemini silent_service ''hello'' [] [] three_keys idle) =
     Inl (Error ''Empty response'') \<and>
   map req_apiKey (sent (snd (sendMessageToGemini silent_service ''hello'' [] [] three_keys idle))) =
     [''keyA'', ''keyB'']"
proof -
  have a: "currentParts ''hello'' [] \<noteq> []" by (simp add: currentParts_def)
  have b: "Suc 0 < length (apiKeys three_keys)" by (simp add: three_keys_def)
  have c: "\<forall>j<Suc 0. quota_rejected (answer_at silent_service ''hello'' [] [] three_keys idle j)"
    by (simp add: quota_rejected_def answer_at_def state_at_def three_keys_def idle_def
          generateContent_def silent_service_def build_request_def is_quota_error_def toString_def)
  have d: "answer_at silent_service ''hello'' [] [] three_keys idle (Suc 0) = Inr \<lparr>resp_text = None\<rparr>"
    by (simp add: answer_at_def state_at_def three_keys_def idle_def
          generateContent_def silent_service_def build_request_def)
  have e: "resp_text \<lparr>resp_text = None\<rparr> = None \<or> resp_text \<lparr>resp_text = None\<rparr> = Some []"
    by simp
  from empty_response_not_retried[OF a b c d e]
  show ?thesis by (simp add: three_keys_def build_request_def idle_def)
qed

text \<open>
  Claim C8. With an empty message text and no attachment \<open>sendMessageToGemini\<close> is
  rejected for every service, history and configuration, and the state is returned as it
  was: no request has been sent. The error is \<open>Message cannot be empty\<close>, or
  \<open>All API keys exhausted.\<close> when there is no credential at all.
\<close>

theorem empty_message_rejected:
  "sendMessageToGemini svc [] [] history cfg s =
     (Inl (if apiKeys cfg = [] then Error ''All API keys exhausted.''
           else Error ''Message cannot be empty''), s)"
  unfolding sendMessageToGemini_def
  by (subst tryGenerate.simps)
     (simp add: try_block_def currentParts_def not_quota_Message_empty)


section \<open>Properties of the video variant\<close>

lemma refresh_job_jobs: "refresh_job sdk k op s = (r, s') \<Longrightarrow> jobs s' = jobs s"
  by (auto simp: refresh_job_def split: prod.splits)

lemma poll_jobs_done:
  assumes "poll sdk k op s = Some y"
  shows "jobs (snd y) = jobs s \<and> (\<forall>op'. fst y = Inr op' \<longrightarrow> op_done op')"
proof (rule poll.raw_induct[where P = "\<lambda>sdk k op s y.
          jobs (snd y) = jobs s \<and> (\<forall>op'. fst y = Inr op' \<longrightarrow> op_done op')", OF _ assms],
       goal_cases)
  case (1 approx sdk apiKey operation s y)
  show ?case
  proof (cases "op_done operation")
    case True
    with 1(2) show ?thesis by auto
  next
    case False
    obtain r s1 where rj: "refresh_job sdk apiKey operation s = (r, s1)"
      by (cases "refresh_job sdk apiKey operation s")
    then have j: "jobs s1 = jobs s" by (rule refresh_job_jobs)
    show ?thesis
    proof (cases r)
      case (Inl e)
      with False rj 1(2) have "y = (Inl e, s1)" by simp
      with j show ?thesis by simp
    next
      case (Inr operation')
      with False rj 1(2) have "approx sdk apiKey operation' s1 = Some y" by simp
      from 1(1)[OF this] j show ?thesis by simp
    qed
  qed
qed

lemma run_job_jobs_done:
  assumes "run_job sdk k prompt s = Some (r, s')"
  shows "jobs s' = jobs s @ [k] \<and> (\<forall>op'. r = Inr op' \<longrightarrow> op_done op')"
proof -
  obtain r1 s1 where sj: "start_job sdk k prompt s = (r1, s1)"
    by (cases "start_job sdk k prompt s")
  then have j: "jobs s1 = jobs s @ [k]"
    by (auto simp: start_job_def split: prod.splits)
  show ?thesis
  proof (cases r1)
    case (Inl e)
    with sj assms j show ?thesis by (auto simp: run_job_def)
  next
    case (Inr operation)
    with sj assms have "poll sdk k operation s1 = Some (r, s')" by (simp add: run_job_def)
    from poll_jobs_done[OF this] j show ?thesis by simp
  qed
qed

lemma try_video_jobs:
  assumes "try_video sdk prompt cfg i s = Some (r, s')"
  shows "jobs s' = jobs s @ [apiKeys cfg ! i]"
proof -
  from assms obtain r0 where "run_job sdk (apiKeys cfg ! i) prompt s = Some (r0, s')"
    by (auto simp: try_video_def Let_def split: option.splits sum.splits prod.splits if_splits)
  from run_job_jobs_done[OF this] show ?thesis by simp
qed

lemma try_video_Inr:
  assumes "try_video sdk prompt cfg i s = Some (Inr r, s')"
  shows "\<exists>operation videoUri.
           run_job sdk (apiKeys cfg ! i) prompt s = Some (Inr operation, s') \<and>
           op_done operation \<and> op_videoUri operation = Some videoUri \<and> videoUri \<noteq> [] \<and>
           r = videoUri @ ''&key='' @ apiKeys cfg ! i"
proof -
  from assms obtain operation videoUri where
    rj: "run_job sdk (apiKeys cfg ! i) prompt s = Some (Inr operation, s')" and
    u: "op_videoUri operation = Some videoUri" "videoUri \<noteq> []" "r = videoUri @ ''&key='' @ apiKeys cfg ! i"
    by (auto simp: try_video_def Let_def split: option.splits sum.splits prod.splits if_splits)
  from run_job_jobs_done[OF rj] have "op_done operation" by simp
  with rj u show ?thesis by blast
qed

lemma tryGenerateVideo_Inr:
  "tryGenerateVideo sdk prompt cfg j s = Some (Inr r, s') \<Longrightarrow>
   \<exists>i s0 operation videoUri.
     j \<le> i \<and> i < length (apiKeys cfg) \<and>
     run_job sdk (apiKeys cfg ! i) prompt s0 = Some (Inr operation, s') \<and>
     op_done operation \<and> op_videoUri operation = Some videoUri \<and> videoUri \<noteq> [] \<and>
     r = videoUri @ ''&key='' @ apiKeys cfg ! i \<and>
     jobs s' = jobs s @ drop j (take (Suc i) (apiKeys cfg))"
proof (induction sdk prompt cfg j s rule: tryGenerateVideo.induct)
  case (1 sdk prompt cfg retryIdx s)
  from "1.prems" have lt: "retryIdx < length (apiKeys cfg)"
    by (subst (asm) tryGenerateVideo.simps) (auto split: if_splits)
  from "1.prems" lt obtain r1 s1 where tv: "try_video sdk prompt cfg retryIdx s = Some (r1, s1)"
    by (subst (asm) tryGenerateVideo.simps) (auto split: option.splits)
  from try_video_jobs[OF tv] have j1: "jobs s1 = jobs s @ [apiKeys cfg ! retryIdx]" .
  show ?case
  proof (cases r1)
    case (Inr r')
    with "1.prems" lt tv have eq: "r' = r" "s1 = s'"
      by (subst (asm) tryGenerateVideo.simps, simp)+
    from tv Inr eq have "try_video sdk prompt cfg retryIdx s = Some (Inr r, s')" by simp
    from try_video_Inr[OF this] obtain operation videoUri where
      "run_job sdk (apiKeys cfg ! retryIdx) prompt s = Some (Inr operation, s')"
      "op_done operation" "op_videoUri operation = Some videoUri" "videoUri \<noteq> []"
      "r = videoUri @ ''&key='' @ apiKeys cfg ! retryIdx" by blast
    moreover have "drop retryIdx (take (Suc retryIdx) (apiKeys cfg)) = [apiKeys cfg ! retryIdx]"
      using lt by (simp add: take_Suc_conv_app_nth)
    with j1 eq have "jobs s' = jobs s @ drop retryIdx (take (Suc retryIdx) (apiKeys cfg))" by simp
    ultimately show ?thesis using lt by blast
  next
    case (Inl e)
    with "1.prems" lt tv have q: "is_quota_error e"
      and rec: "tryGenerateVideo sdk prompt cfg (retryIdx + 1) s1 = Some (Inr r, s')"
      by (subst (asm) tryGenerateVideo.simps, simp split: if_splits)+
    from "1.IH"[of "(r1, s1)" r1 s1 e] lt tv Inl q rec
    obtain i s0 operation videoUri where
      i: "retryIdx + 1 \<le> i" "i < length (apiKeys cfg)" and
      rest: "run_job sdk (apiKeys cfg ! i) prompt s0 = Some (Inr operation, s')"
      "op_done operation" "op_videoUri operation = Some videoUri" "videoUri \<noteq> []"
      "r = videoUri @ ''&key='' @ apiKeys cfg ! i" and
      js: "jobs s' = jobs s1 @ drop (retryIdx + 1) (take (Suc i) (apiKeys cfg))"
      by auto
    have "retryIdx < length (take (Suc i) (apiKeys cfg))" using i by simp
    then have "drop retryIdx (take (Suc i) (apiKeys cfg)) =
        take (Suc i) (apiKeys cfg) ! retryIdx # drop (Suc retryIdx) (take (Suc i) (apiKeys cfg))"
      by (rule Cons_nth_drop_Suc[symmetric])
    moreover have "take (Suc i) (apiKeys cfg) ! retryIdx = apiKeys cfg ! retryIdx"
      using i by simp
    ultimately have "jobs s' = jobs s @ drop retryIdx (take (Suc i) (apiKeys cfg))"
      using js j1 by simp
    moreover from i have "retryIdx \<le> i" by simp
    ultimately show ?thesis using i(2) rest by blast
  qed
qed

text \<open>
  Claim C10. Whenever \<open>generateVeoVideo\<close> returns a string, the string is not the bare
  result locator. It is the non-empty locator carried by a finished job, followed by
  \<open>&key=\<close> and the credential that job was run with, which is the last credential
  tried: the secret is part of the value handed to the caller.
\<close>

theorem video_url_carries_key:
  assumes "generateVeoVideo sdk prompt cfg s = Some (Inr r, s')"
  shows "\<exists>i s0 operation videoUri.
     i < length (apiKeys cfg) \<and>
     run_job sdk (apiKeys cfg ! i) prompt s0 = Some (Inr operation, s') \<and>
     op_done operation \<and> op_videoUri operation = Some videoUri \<and> videoUri \<noteq> [] \<and>
     r = videoUri @ ''&key='' @ apiKeys cfg ! i \<and> r \<noteq> videoUri \<and>
     jobs s' = jobs s @ take (Suc i) (apiKeys cfg)"
proof -
  from assms have "tryGenerateVideo sdk prompt cfg 0 s = Some (Inr r, s')"
    by (simp add: generateVeoVideo_def)
  from tryGenerateVideo_Inr[OF this] obtain i s0 operation videoUri where
    "i < length (apiKeys cfg)"
    "run_job sdk (apiKeys cfg ! i) prompt s0 = Some (Inr operation, s')"
    "op_done operation" "op_videoUri operation = Some videoUri" "videoUri \<noteq> []"
    "r = videoUri @ ''&key='' @ apiKeys cfg ! i"
    "jobs s' = jobs s @ take (Suc i) (apiKeys cfg)" by auto
  moreover from this(6) have "r \<noteq> videoUri" by simp
  ultimately show ?thesis by blast
qed

lemma sample_video_run:
  "generateVeoVideo sample_video_sdk ''a cat'' \<lparr>apiKeys = [''keyA'', ''keyB'']\<rparr> \<lparr>vworld = 0, jobs = []\<rparr> =
     Some (Inr ''https://example.test/v?id=7&key=keyB'', \<lparr>vworld = 2, jobs = [''keyA'', ''keyB'']\<rparr>)"
  by (simp add: generateVeoVideo_def tryGenerateVideo.simps try_video_def run_job_def start_job_def
        refresh_job_def poll.simps sample_video_sdk_def Let_def is_quota_error_def toString_def)

theorem video_url_carries_key_witness:
  "generateVeoVideo sample_video_sdk ''a cat'' \<lparr>apiKeys = [''keyA'', ''keyB'']\<rparr> \<lparr>vworld = 0, jobs = []\<rparr> =
     Some (Inr ''https://example.test/v?id=7&key=keyB'', \<lparr>vworld = 2, jobs = [''keyA'', ''keyB'']\<rparr>) \<and>
   (\<exists>i videoUri. i < 2 \<and> videoUri \<noteq> [] \<and>
      ''https://example.test/v?id=7&key=keyB'' = videoUri @ ''&key='' @ [''keyA'', ''keyB''] ! i \<and>
      ''https://example.test/v?id=7&key=keyB'' \<noteq> videoUri)"
proof -
  note run = sample_video_run
  from video_url_carries_key[OF run] obtain i videoUri where
    "i < length (apiKeys \<lparr>apiKeys = [''keyA'', ''keyB'']\<rparr>)" "videoUri \<noteq> []"
    "''https://example.test/v?id=7&key=keyB'' = videoUri @ ''&key='' @ apiKeys \<lparr>apiKeys = [''keyA'', ''keyB'']\<rparr> ! i"
    "''https://example.test/v?id=7&key=keyB'' \<noteq> videoUri" by blast
  then have "\<exists>i videoUri. i < 2 \<and> videoUri \<noteq> [] \<and>
      ''https://example.test/v?id=7&key=keyB'' = videoUri @ ''&key='' @ [''keyA'', ''keyB''] ! i \<and>
      ''https://example.test/v?id=7&key=keyB'' \<noteq> videoUri"
    by (intro exI[of _ i] exI[of _ videoUri]) simp
  with run show ?thesis by blast
qed


section \<open>Properties of the session operations\<close>

lemma num_ge_diffHours:
  "num_ge (diffHours now (Some c)) 200000 \<longleftrightarrow> now - c \<ge> 200000 * (60 * 60 * 1000)"
proof -
  have "real_of_int (now - c) / (1000 * 60 * 60) \<ge> 200000 \<longleftrightarrow>
        real_of_int (now - c) \<ge> 200000 * (1000 * 60 * 60)"
    by (simp add: field_simps)
  also have "\<dots> \<longleftrightarrow> real_of_int (now - c) \<ge> real_of_int (200000 * (60 * 60 * 1000))"
    by simp
  also have "\<dots> \<longleftrightarrow> now - c \<ge> 200000 * (60 * 60 * 1000)"
    by (simp only: of_int_le_iff)
  finally show ?thesis by (simp add: num_ge_def diffHours_def)
qed

text \<open>
  Claim C4. Let \<open>loginClient\<close> find the one row with the given access key and the role
  \<open>user\<close>, created at a valid time. When the time elapsed since then is at least
  200,000 hours (counted in milliseconds, the unit of the clock), the login is rejected
  with the expiry message and the client is left as it was. When it is less, even by one
  millisecond, the login succeeds, the user becomes the current user, and the key is stored
  in local storage under \<open>central_gpt_active_session\<close>.
\<close>

theorem loginClient_expiry_boundary:
  assumes "single (filter (\<lambda>u. access_key u = key \<and> row_role u = ''user'') users) = Some u"
    and "created_at u = Some c"
  shows "(now - c \<ge> 200000 * (60 * 60 * 1000) \<longrightarrow>
            loginClient users now key s =
              (\<lparr>success = False, login_message = Some ''Access Key expired (200.000 hours).''\<rparr>, s)) \<and>
         (now - c < 200000 * (60 * 60 * 1000) \<longrightarrow>
            loginClient users now key s =
              (\<lparr>success = True, login_message = None\<rparr>,
               s\<lparr>currentUser := Some (mapped u),
                 localStorage := (localStorage s)(''central_gpt_active_session'' \<mapsto> key)\<rparr>))"
  using assms
  by (simp add: loginClient_def num_ge_diffHours session_slot_def)

theorem loginClient_expiry_boundary_witness:
  "loginClient [root_admin, alice] (200000 * (60 * 60 * 1000)) ''VALID-KEY-123'' fresh_client =
     (\<lparr>success = False, login_message = Some ''Access Key expired (200.000 hours).''\<rparr>, fresh_client) \<and>
   success (fst (loginClient [root_admin, alice] (200000 * (60 * 60 * 1000) - 1) ''VALID-KEY-123'' fresh_client)) \<and>
   currentUser (snd (loginClient [root_admin, alice] (200000 * (60 * 60 * 1000) - 1) ''VALID-KEY-123'' fresh_client)) =
     Some (mapped alice) \<and>
   localStorage (snd (loginClient [root_admin, alice] (200000 * (60 * 60 * 1000) - 1) ''VALID-KEY-123'' fresh_client))
     ''central_gpt_active_session'' = Some ''VALID-KEY-123''"
proof -
  have a: "single (filter (\<lambda>u. access_key u = ''VALID-KEY-123'' \<and> row_role u = ''user'') [root_admin, alice]) =
           Some alice"
    by (simp add: single_def alice_def root_admin_def)
  have b: "created_at alice = Some 0" by (simp add: alice_def)
  from loginClient_expiry_boundary[OF a b, of "200000 * (60 * 60 * 1000)" fresh_client]
       loginClient_expiry_boundary[OF a b, of "200000 * (60 * 60 * 1000) - 1" fresh_client]
  show ?thesis by simp
qed

text \<open>
  Claim C5. For a row with the role \<open>admin\<close>, whatever its creation time:
  \<open>loginAdmin\<close>, which does not read the clock at all, succeeds, sets the current user
  and stores the key; and \<open>restoreSession\<close>, at every clock reading, sets the current
  user and leaves the stored key in place. Neither rejects or clears on grounds of expiry.
\<close>

theorem admin_exempt_from_expiry:
  "(single (filter (\<lambda>u. row_username u = uname \<and> access_key u = key \<and> row_role u = ''admin'') users) = Some u \<longrightarrow>
      loginAdmin users uname key s =
        (\<lparr>success = True, login_message = None\<rparr>,
         s\<lparr>currentUser := Some (mapped u),
           localStorage := (localStorage s)(''central_gpt_active_session'' \<mapsto> key)\<rparr>)) \<and>
   (localStorage s ''central_gpt_active_session'' = Some k \<and> k \<noteq> [] \<and>
    single (filter (\<lambda>u. access_key u = k) users) = Some v \<and> row_role v = ''admin'' \<longrightarrow>
      (\<forall>now. restoreSession users now s = s\<lparr>currentUser := Some (mapped v)\<rparr>))"
  by (simp add: loginAdmin_def restoreSession_def session_slot_def)

theorem admin_exempt_from_expiry_witness:
  "loginAdmin [root_admin, alice] ''root'' ''ROOT-KEY'' fresh_client =
     (\<lparr>success = True, login_message = None\<rparr>,
      \<lparr>currentUser = Some (mapped root_admin),
       localStorage = [''central_gpt_active_session'' \<mapsto> ''ROOT-KEY'']\<rparr>) \<and>
   restoreSession [root_admin, alice] (400000 * (60 * 60 * 1000)) (returning_client ''ROOT-KEY'') =
     \<lparr>currentUser = Some (mapped root_admin),
      localStorage = [''central_gpt_active_session'' \<mapsto> ''ROOT-KEY'']\<rparr>"
proof -
  have a: "single (filter (\<lambda>u. row_username u = ''root'' \<and> access_key u = ''ROOT-KEY'' \<and> row_role u = ''admin'')
             [root_admin, alice]) = Some root_admin"
    by (simp add: single_def alice_def root_admin_def)
  have b: "localStorage (returning_client ''ROOT-KEY'') ''central_gpt_active_session'' = Some ''ROOT-KEY'' \<and>
           ''ROOT-KEY'' \<noteq> [] \<and>
           single (filter (\<lambda>u. access_key u = ''ROOT-KEY'') [root_admin, alice]) = Some root_admin \<and>
           row_role root_admin = ''admin''"
    by (simp add: single_def alice_def root_admin_def returning_client_def)
  from admin_exempt_from_expiry[of "''root''" "''ROOT-KEY''" "[root_admin, alice]" root_admin fresh_client] a
  have 1: "loginAdmin [root_admin, alice] ''root'' ''ROOT-KEY'' fresh_client =
        (\<lparr>success = True, login_message = None\<rparr>,
         fresh_client\<lparr>currentUser := Some (mapped root_admin),
           localStorage := (localStorage fresh_client)(''central_gpt_active_session'' \<mapsto> ''ROOT-KEY'')\<rparr>)"
    by blast
  from admin_exempt_from_expiry[of _ _ "[root_admin, alice]" _ "returning_client ''ROOT-KEY''" "''ROOT-KEY''" root_admin] b
  have 2: "restoreSession [root_admin, alice] (400000 * (60 * 60 * 1000)) (returning_client ''ROOT-KEY'') =
        (returning_client ''ROOT-KEY'')\<lparr>currentUser := Some (mapped root_admin)\<rparr>"
    by blast
  from 1 2 show ?thesis by (simp add: fresh_client_def returning_client_def)
qed

text \<open>
  Claim C6. When local storage holds a key and the lookup for it yields no row (the user
  was deleted), \<open>restoreSession\<close> removes the stored key, leaves the current user as it
  was, so no session is established, and returns normally: the operation has no failing
  path. (An empty stored string counts as no key for the source, and no lookup is made.)
\<close>

theorem restoreSession_deleted_user:
  assumes "localStorage s ''central_gpt_active_session'' = Some k" and "k \<noteq> []"
    and "single (filter (\<lambda>u. access_key u = k) users) = None"
  shows "restoreSession users now s =
           s\<lparr>localStorage := (localStorage s)(''central_gpt_active_session'' := None)\<rparr> \<and>
         localStorage (restoreSession users now s) ''central_gpt_active_session'' = None \<and>
         currentUser (restoreSession users now s) = currentUser s"
  using assms by (simp add: restoreSession_def session_slot_def)

theorem restoreSession_deleted_user_witness:
  "restoreSession [root_admin] 5 (returning_client ''VALID-KEY-123'') = fresh_client"
proof -
  have a: "localStorage (returning_client ''VALID-KEY-123'') ''central_gpt_active_session'' = Some ''VALID-KEY-123''"
    by (simp add: returning_client_def)
  have b: "''VALID-KEY-123'' \<noteq> []" by simp
  have c: "single (filter (\<lambda>u. access_key u = ''VALID-KEY-123'') [root_admin]) = None"
    by (simp add: single_def root_admin_def)
  from restoreSession_deleted_user[OF a b c, of 5]
  show ?thesis by (simp add: returning_client_def fresh_client_def)
qed

section \<open>Properties of the configuration\<close>

text \<open>
  Claim C7, as stated, fails: an override whose AI name is present but is the empty string
  does not take precedence; the global name is used.
\<close>

theorem override_precedence_counterexample:
  "config (user_with blank_override) = Some blank_override \<and>
   uc_aiName blank_override = Some '''' \<and>
   aiName (effectiveConfig (Some sample_global) (Some (user_with blank_override))) = ''CentralGPT''"
  by (simp add: effectiveConfig_def user_with_def blank_override_def sample_global_def or_else_def)

text \<open>
  Claim C7, amended. For a user with an override: each of AI name, persona and developer
  name is the override's value when that value is present and not empty, and the global
  value when it is absent or empty; the credential list is the user's list when that list
  is present and not empty, and the global list when it is absent or empty.
\<close>

theorem effectiveConfig_merge:
  assumes "config u = Some c"
  shows "(\<forall>v. uc_aiName c = Some v \<and> v \<noteq> [] \<longrightarrow> aiName (effectiveConfig (Some g) (Some u)) = v) \<and>
         (uc_aiName c = None \<or> uc_aiName c = Some [] \<longrightarrow>
            aiName (effectiveConfig (Some g) (Some u)) = aiName g) \<and>
         (\<forall>v. uc_aiPersona c = Some v \<and> v \<noteq> [] \<longrightarrow> aiPersona (effectiveConfig (Some g) (Some u)) = v) \<and>
         (uc_aiPersona c = None \<or> uc_aiPersona c = Some [] \<longrightarrow>
            aiPersona (effectiveConfig (Some g) (Some u)) = aiPersona g) \<and>
         (\<forall>v. uc_devName c = Some v \<and> v \<noteq> [] \<longrightarrow> devName (effectiveConfig (Some g) (Some u)) = v) \<and>
         (uc_devName c = None \<or> uc_devName c = Some [] \<longrightarrow>
            devName (effectiveConfig (Some g) (Some u)) = devName g) \<and>
         (\<forall>ks. uc_apiKeys c = Some ks \<and> ks \<noteq> [] \<longrightarrow> apiKeys (effectiveConfig (Some g) (Some u)) = ks) \<and>
         (uc_apiKeys c = None \<or> uc_apiKeys c = Some [] \<longrightarrow>
            apiKeys (effectiveConfig (Some g) (Some u)) = apiKeys g)"
  using assms
  by (auto simp add: effectiveConfig_def or_else_def)

theorem effectiveConfig_merge_witness:
  "aiName (effectiveConfig (Some sample_global) (Some (user_with full_override))) = ''Nova'' \<and>
   aiPersona (effectiveConfig (Some sample_global) (Some (user_with full_override))) = ''Be brief.'' \<and>
   devName (effectiveConfig (Some sample_global) (Some (user_with full_override))) = ''Kim'' \<and>
   apiKeys (effectiveConfig (Some sample_global) (Some (user_with full_override))) = [''uk1''] \<and>
   aiName (effectiveConfig (Some sample_global) (Some (user_with blank_override))) = aiName sample_global \<and>
   aiPersona (effectiveConfig (Some sample_global) (Some (user_with blank_override))) = aiPersona sample_global \<and>
   devName (effectiveConfig (Some sample_global) (Some (user_with blank_override))) = devName sample_global \<and>
   apiKeys (effectiveConfig (Some sample_global) (Some (user_with blank_override))) = apiKeys sample_global"
proof -
  have a: "config (user_with full_override) = Some full_override" by (simp add: user_with_def)
  have b: "config (user_with blank_override) = Some blank_override" by (simp add: user_with_def)
  from effectiveConfig_merge[OF a, of sample_global] effectiveConfig_merge[OF b, of sample_global]
  show ?thesis by (simp add: full_override_def blank_override_def)
qed

lemma dom_set_if_truthy: "dom (set_if_truthy column v obj) \<subseteq> insert column (dom obj)"
  by (auto simp: set_if_truthy_def split: option.splits if_splits)

lemma dom_dbUpdate:
  "dom (dbUpdate newConfig) \<subseteq> {''ai_name'', ''dev_name'', ''avatar_url'', ''api_keys''}"
proof -
  let ?d1 = "set_if_truthy ''ai_name'' (p_aiName newConfig) Map.empty"
  let ?d2 = "set_if_truthy ''dev_name'' (p_devName newConfig) ?d1"
  let ?d3 = "set_if_truthy ''avatar_url'' (p_avatarUrl newConfig) ?d2"
  have "dom ?d1 \<subseteq> {''ai_name''}" using dom_set_if_truthy[of "''ai_name''" _ Map.empty] by simp
  then have "dom ?d2 \<subseteq> {''ai_name'', ''dev_name''}"
    using dom_set_if_truthy[of "''dev_name''" "p_devName newConfig" ?d1] by blast
  then have "dom ?d3 \<subseteq> {''ai_name'', ''dev_name'', ''avatar_url''}"
    using dom_set_if_truthy[of "''avatar_url''" "p_avatarUrl newConfig" ?d2] by blast
  then show ?thesis
    by (cases "p_apiKeys newConfig") (auto simp: dbUpdate_def Let_def)
qed

lemma dbUpdate_no_persona: "dbUpdate newConfig ''ai_persona'' = None"
proof (rule ccontr)
  assume "dbUpdate newConfig ''ai_persona'' \<noteq> None"
  then have "''ai_persona'' \<in> dom (dbUpdate newConfig)" by (simp add: domIff)
  then have "''ai_persona'' \<in> {''ai_name'', ''dev_name'', ''avatar_url'', ''api_keys''}"
    using dom_dbUpdate[of newConfig] by (rule rev_subsetD)
  then show False by simp
qed

text \<open>
  Claim C9. The object \<open>updateGlobalConfig\<close> writes never has the column
  \<open>ai_persona\<close>, whatever the supplied configuration holds: its columns are among
  \<open>ai_name\<close>, \<open>dev_name\<close>, \<open>avatar_url\<close> and \<open>api_keys\<close>. So the persona stored in
  every row of the table is the same after the operation as before.
\<close>

theorem updateGlobalConfig_leaves_persona:
  "dbUpdate newConfig ''ai_persona'' = None \<and>
   dom (dbUpdate newConfig) \<subseteq> {''ai_name'', ''dev_name'', ''avatar_url'', ''api_keys''} \<and>
   map (\<lambda>row. row ''ai_persona'') (updateGlobalConfig table newConfig) =
     map (\<lambda>row. row ''ai_persona'') table"
proof (intro conjI)
  show "dbUpdate newConfig ''ai_persona'' = None" by (rule dbUpdate_no_persona)
  show "dom (dbUpdate newConfig) \<subseteq> {''ai_name'', ''dev_name'', ''avatar_url'', ''api_keys''}"
    by (rule dom_dbUpdate)
  show "map (\<lambda>row. row ''ai_persona'') (updateGlobalConfig table newConfig) =
     map (\<lambda>row. row ''ai_persona'') table"
    by (simp add: updateGlobalConfig_def update_eq_def map_add_def dbUpdate_no_persona)
qed

theorem updateGlobalConfig_leaves_persona_witness:
  "p_aiPersona persona_patch = Some ''Be rude.'' \<and>
   map (\<lambda>row. row ''ai_persona'') (updateGlobalConfig sample_table persona_patch) =
     [Some (JString ''You are {{AI_NAME}}.'')] \<and>
   map (\<lambda>row. row ''ai_name'') (updateGlobalConfig sample_table persona_patch) =
     [Some (JString ''Nova'')]"
proof -
  have "map (\<lambda>row. row ''ai_name'') (updateGlobalConfig sample_table persona_patch) =
     [Some (JString ''Nova'')]"
    by (simp add: updateGlobalConfig_def update_eq_def sample_table_def persona_patch_def
          dbUpdate_def set_if_truthy_def map_add_def)
  with updateGlobalConfig_leaves_persona[of persona_patch sample_table]
  show ?thesis by (simp add: sample_table_def persona_patch_def)
qed


end
